theory Spec2Isabelle
  imports Main "HOL-Library.Multiset" "HOL-Library.Char_ord" "HOL-Library.List_Lexorder"
begin

section \<open>Data model\<close>

text \<open>
  The ledger of \<^verbatim>\<open>blockchain/index.js\<close>. A block's \<^verbatim>\<open>data\<close> is the array of
  transaction objects that \<^verbatim>\<open>validTransactionData\<close> iterates over. JavaScript arrays
  hold references, and the duplicate check of \<^verbatim>\<open>validTransactionData\<close> compares
  references (\<^verbatim>\<open>Set.has\<close>), so a block stores references and a heap maps every
  reference to the object it denotes. Two entries alias exactly when the references are
  equal; two distinct references may denote objects of equal content.

  Numbers are integers here (timestamps, amounts, nonces, difficulties); the writes to
  \<^verbatim>\<open>console.error\<close> are not part of the model.
\<close>

type_synonym address = string
type_synonym ref = nat

record txInput =
  input_timestamp :: int
  amount :: int
  address :: address
  signature :: string

text \<open>
  \<^verbatim>\<open>outputMap\<close> is an object used as a dictionary; \<^verbatim>\<open>Object.values\<close> lists its values
  in property order, so it is an association list in that order.
\<close>

record transaction =
  tx_id :: string
  input :: txInput
  outputMap :: "(address \<times> int) list"

type_synonym heap = "ref \<Rightarrow> transaction"

record block =
  timestamp :: int
  lastHash :: string
  hash :: string
  data :: "ref list"
  nonce :: int
  difficulty :: int

text \<open>The values handed to \<^verbatim>\<open>cryptoHash\<close> by \<^verbatim>\<open>isValidChain\<close>: numbers, strings and
  a block's payload (serialised by content).\<close>

datatype hashInput = Num int | Str string | Payload "transaction list"

text \<open>
  What \<^verbatim>\<open>index.js\<close> imports and this development takes as given: the constants
  of \<^verbatim>\<open>config\<close>, the genesis block built by \<^verbatim>\<open>Block.genesis()\<close>, the SHA-256 digest
  rendered in hexadecimal, \<^verbatim>\<open>JSON.stringify\<close> on hash inputs,
  \<^verbatim>\<open>Transaction.validTransaction\<close> and \<^verbatim>\<open>Wallet.calculateBalance\<close>.
\<close>

record collaborators =
  REWARD_INPUT_address :: address
  MINING_REWARD :: int
  genesis :: block
  sha256_hex :: "string \<Rightarrow> string"
  stringify :: "hashInput \<Rightarrow> string"
  validTransaction :: "transaction \<Rightarrow> bool"
  calculateBalance :: "heap \<Rightarrow> block list \<Rightarrow> address \<Rightarrow> int"

section \<open>Hasher\<close>

text \<open>
  Modelled from the spec: the source of \<^verbatim>\<open>cryptoHash\<close> is missing (only its test file is
  present). Section 4.1: the inputs are independently serialised to a canonical string
  form, sorted, concatenated, and passed through a fixed 256-bit digest rendered as
  lowercase hexadecimal. The default sort of JavaScript strings is lexicographic on code
  units, which is the order of \<^verbatim>\<open>List_Lexorder\<close> over \<^verbatim>\<open>Char_ord\<close>.
\<close>

definition cryptoHash :: "collaborators \<Rightarrow> hashInput list \<Rightarrow> string" where
  "cryptoHash c inputs = sha256_hex c (concat (sort (map (stringify c) inputs)))"

section \<open>Ledger (Blockchain)\<close>

text \<open>
  The node: the \<^verbatim>\<open>Blockchain\<close> object owns \<^verbatim>\<open>chain\<close>; the transaction pool is the
  collaborator that the success callback of \<^verbatim>\<open>replaceChain\<close> acts on. Its state is
  left abstract.
\<close>

record 'p node =
  chain :: "block list"
  transactionPool :: 'p

subsection \<open>validTransactionData\<close>

text \<open>\<^verbatim>\<open>Object.values(transaction.outputMap)[0]\<close>; \<open>None\<close> is \<^verbatim>\<open>undefined\<close>.\<close>

definition firstOutputValue :: "(address \<times> int) list \<Rightarrow> int option" where
  "firstOutputValue m = (case map snd m of [] \<Rightarrow> None | v # _ \<Rightarrow> Some v)"

text \<open>
  The inner loop \<^verbatim>\<open>for (let transaction of block.data)\<close> with its two local variables
  \<^verbatim>\<open>transactionSet\<close> and \<^verbatim>\<open>rewardTransaactionCount\<close>. The result \<open>False\<close> is a
  \<^verbatim>\<open>return false\<close> of the enclosing function; \<open>True\<close> is the loop running to its end.
  \<^verbatim>\<open>this.chain\<close> is the argument \<open>this_chain\<close>.
\<close>

fun transactionLoop ::
  "collaborators \<Rightarrow> heap \<Rightarrow> block list \<Rightarrow> ref list \<Rightarrow> ref list \<Rightarrow> nat \<Rightarrow> bool" where
  "transactionLoop c h this_chain [] transactionSet rewardTransaactionCount = True"
| "transactionLoop c h this_chain (t # rest) transactionSet rewardTransaactionCount =
     (if address (input (h t)) = REWARD_INPUT_address c then
        (if rewardTransaactionCount + 1 > 1 then False
         else if firstOutputValue (outputMap (h t)) \<noteq> Some (MINING_REWARD c) then False
         else transactionLoop c h this_chain rest transactionSet (rewardTransaactionCount + 1))
      else
        (if \<not> validTransaction c (h t) then False
         else if amount (input (h t))
                 \<noteq> calculateBalance c h this_chain (address (input (h t))) then False
         else if t \<in> set transactionSet then False
         else transactionLoop c h this_chain rest (t # transactionSet) rewardTransaactionCount))"

text \<open>The outer loop \<^verbatim>\<open>for (let i = 1; i < chain.length; i++)\<close> over the blocks after
  the first; each block starts with an empty set and a count of zero.\<close>

fun blockLoop :: "collaborators \<Rightarrow> heap \<Rightarrow> block list \<Rightarrow> block list \<Rightarrow> bool" where
  "blockLoop c h this_chain [] = True"
| "blockLoop c h this_chain (b # bs) =
     (if transactionLoop c h this_chain (data b) [] 0 then blockLoop c h this_chain bs
      else False)"

definition validTransactionData ::
  "collaborators \<Rightarrow> heap \<Rightarrow> block list \<Rightarrow> block list \<Rightarrow> bool" where
  "validTransactionData c h this_chain chain' = blockLoop c h this_chain (drop 1 chain')"

subsection \<open>isValidChain\<close>

text \<open>
  \<^verbatim>\<open>JSON.stringify\<close> of a block lists its six fields, the payload by content. Two
  blocks have the same serialisation exactly when these views agree, so the comparison of
  \<^verbatim>\<open>JSON.stringify(chain[0])\<close> with \<^verbatim>\<open>JSON.stringify(Block.genesis())\<close> is the comparison
  of the views.
\<close>

definition blockJSON ::
  "heap \<Rightarrow> block \<Rightarrow> int \<times> string \<times> string \<times> transaction list \<times> int \<times> int" where
  "blockJSON h b = (timestamp b, lastHash b, hash b, map h (data b), nonce b, difficulty b)"

text \<open>The loop of \<^verbatim>\<open>isValidChain\<close> from index 1 on; \<open>prev\<close> is \<^verbatim>\<open>chain[i-1]\<close>.\<close>

fun linkLoop :: "collaborators \<Rightarrow> heap \<Rightarrow> block \<Rightarrow> block list \<Rightarrow> bool" where
  "linkLoop c h prev [] = True"
| "linkLoop c h prev (b # bs) =
     (if lastHash b \<noteq> hash prev then False
      else if hash b \<noteq> cryptoHash c [Num (timestamp b), Str (lastHash b),
                 Payload (map h (data b)), Num (nonce b), Num (difficulty b)] then False
      else if \<bar>difficulty prev - difficulty b\<bar> > 1 then False
      else linkLoop c h b bs)"

text \<open>On the empty array \<^verbatim>\<open>chain[0]\<close> is \<^verbatim>\<open>undefined\<close>, whose serialisation differs from
  that of the genesis block: the function returns false.\<close>

definition isValidChain :: "collaborators \<Rightarrow> heap \<Rightarrow> block list \<Rightarrow> bool" where
  "isValidChain c h chain' =
     (case chain' of
        [] \<Rightarrow> False
      | b0 # rest \<Rightarrow>
          if blockJSON h b0 \<noteq> blockJSON h (genesis c) then False else linkLoop c h b0 rest)"

subsection \<open>replaceChain\<close>

text \<open>
  The second argument is tested for truthiness only, and callers pass a boolean, nothing,
  or (the listener below) a function. The third is \<^verbatim>\<open>undefined\<close> or a callback, which
  acts on the pool.
\<close>

datatype 'p jsArg = Undefined | Boolean bool | Function "'p \<Rightarrow> 'p"

fun truthy :: "'p jsArg \<Rightarrow> bool" where
  "truthy Undefined = False"
| "truthy (Boolean b) = b"
| "truthy (Function f) = True"

definition replaceChain ::
  "collaborators \<Rightarrow> heap \<Rightarrow> 'p node \<Rightarrow> block list \<Rightarrow> 'p jsArg \<Rightarrow> ('p \<Rightarrow> 'p) option \<Rightarrow> 'p node"
  where
  "replaceChain c h self chain' validateTransactions onSuccess =
     (if length chain' \<le> length (chain self) then self
      else if \<not> isValidChain c h chain' then self
      else if truthy validateTransactions \<and> \<not> validTransactionData c h (chain self) chain'
        then self
      else (case onSuccess of
              None \<Rightarrow> self
            | Some f \<Rightarrow> self\<lparr>transactionPool := f (transactionPool self)\<rparr>)\<lparr>chain := chain'\<rparr>)"

section \<open>Transport listener (PubSub)\<close>

text \<open>
  A received message is its channel together with \<^verbatim>\<open>JSON.parse(message)\<close>: a chain on
  \<^verbatim>\<open>BLOCKCHAIN\<close>, a transaction on \<^verbatim>\<open>TRANSACTION\<close>, anything on another channel.
  The two operations of the transaction pool are taken as given.
\<close>

datatype received = OnBLOCKCHAIN "block list" | OnTRANSACTION ref | OnOther

record 'p poolOps =
  clearBlockchainTransactions :: "heap \<Rightarrow> block list \<Rightarrow> 'p \<Rightarrow> 'p"
  setTransaction :: "transaction \<Rightarrow> 'p \<Rightarrow> 'p"

definition listener ::
  "collaborators \<Rightarrow> 'p poolOps \<Rightarrow> heap \<Rightarrow> 'p node \<Rightarrow> received \<Rightarrow> 'p node" where
  "listener c ops h self m =
     (case m of
        OnBLOCKCHAIN parsedMessage \<Rightarrow>
          replaceChain c h self parsedMessage
            (Function (clearBlockchainTransactions ops h parsedMessage)) None
      | OnTRANSACTION parsedMessage \<Rightarrow>
          self\<lparr>transactionPool := setTransaction ops (h parsedMessage) (transactionPool self)\<rparr>
      | OnOther \<Rightarrow> self)"

section \<open>A concrete instance\<close>

text \<open>
  Concrete collaborators, objects and blocks on which the definitions above are evaluated.
  The digest is the identity, numbers are serialised in unary, a payload by the identifiers
  of its transactions; a transaction is valid when its outputs sum to its input amount; the
  balance of an address is the sum of the amounts credited to it in the chain.
\<close>

definition example_stringify :: "hashInput \<Rightarrow> string" where
  "example_stringify x =
     (case x of
        Num n \<Rightarrow> replicate (nat n) (CHR ''1'')
      | Str s \<Rightarrow> s
      | Payload ts \<Rightarrow> concat (map tx_id ts))"

definition example_balance :: "heap \<Rightarrow> block list \<Rightarrow> address \<Rightarrow> int" where
  "example_balance h ch a =
     sum_list (map (\<lambda>t. sum_list (map snd (filter (\<lambda>kv. fst kv = a) (outputMap (h t)))))
       (concat (map data ch)))"

definition example_genesis :: block where
  "example_genesis = \<lparr>timestamp = 1, lastHash = ''-----'', hash = ''hash-one'', data = [],
     nonce = 0, difficulty = 3\<rparr>"

definition example :: collaborators where
  "example = \<lparr>REWARD_INPUT_address = ''*authorized-reward*'', MINING_REWARD = 50,
     genesis = example_genesis, sha256_hex = (\<lambda>s. s), stringify = example_stringify,
     validTransaction = (\<lambda>t. sum_list (map snd (outputMap t)) = amount (input t)),
     calculateBalance = example_balance\<rparr>"

definition rewardTx :: "string \<Rightarrow> (address \<times> int) list \<Rightarrow> transaction" where
  "rewardTx i m = \<lparr>tx_id = i, input = \<lparr>input_timestamp = 0, amount = 0,
     address = ''*authorized-reward*'', signature = ''none''\<rparr>, outputMap = m\<rparr>"

definition aliceTx :: transaction where
  "aliceTx = \<lparr>tx_id = ''t4'', input = \<lparr>input_timestamp = 5, amount = 50,
     address = ''alice'', signature = ''sig''\<rparr>, outputMap = [(''bob'', 50)]\<rparr>"

text \<open>Objects 4 and 5 are two distinct objects of equal content.\<close>

definition example_heap :: heap where
  "example_heap r =
     (if r = 1 then rewardTx ''r1'' [(''miner'', 50), (''crony'', 1000000)]
      else if r = 2 then rewardTx ''r2'' [(''miner'', 49)]
      else if r = 3 then rewardTx ''r3'' [(''alice'', 50)]
      else if r = 4 then aliceTx
      else if r = 5 then aliceTx
      else rewardTx ''r0'' [(''miner'', 50)])"

text \<open>A block on top of the genesis block, with the hash that \<^verbatim>\<open>isValidChain\<close>
  re-derives.\<close>

definition example_block :: "ref list \<Rightarrow> block" where
  "example_block ts = \<lparr>timestamp = 2, lastHash = ''hash-one'',
     hash = cryptoHash example
       [Num 2, Str ''hash-one'', Payload (map example_heap ts), Num 1, Num 3],
     data = ts, nonce = 1, difficulty = 3\<rparr>"

text \<open>A pool that holds transaction identifiers: clearing removes the identifiers of the
  transactions of a chain, setting adds one.\<close>

definition example_pool :: "string list poolOps" where
  "example_pool = \<lparr>
     clearBlockchainTransactions =
       (\<lambda>h ch p. filter (\<lambda>i. i \<notin> set (map (\<lambda>t. tx_id (h t)) (concat (map data ch)))) p),
     setTransaction = (\<lambda>t p. tx_id t # p)\<rparr>"

section \<open>Order independence of the hasher\<close>

lemma sort_mset_cong:
  fixes xs ys :: "string list"
  assumes "mset xs = mset ys"
  shows "sort xs = sort ys"
proof -
  have "mset (sort ys) = mset xs" using assms by simp
  moreover have "sorted (sort ys)" by simp
  ultimately show ?thesis by (rule properties_for_sort)
qed

text \<open>
  Claim C9. The digest of a tuple of inputs does not depend on their order: any two
  argument lists that are permutations of each other (equal as multisets) hash to the same
  value, and in particular \<^verbatim>\<open>cryptoHash(a, b, c)\<close> equals \<^verbatim>\<open>cryptoHash(c, a, b)\<close>.
\<close>

theorem cryptoHash_order_independent:
  "(mset xs = mset ys \<longrightarrow> cryptoHash c xs = cryptoHash c ys)
   \<and> cryptoHash c [x, y, z] = cryptoHash c [z, x, y]"
proof -
  have perm: "cryptoHash c us = cryptoHash c vs" if "mset us = mset vs" for us vs
  proof -
    have "mset (map (stringify c) us) = mset (map (stringify c) vs)"
      using that by (metis mset_map)
    then have "sort (map (stringify c) us) = sort (map (stringify c) vs)"
      by (rule sort_mset_cong)
    then show ?thesis by (simp add: cryptoHash_def)
  qed
  have "mset [x, y, z] = mset [z, x, y]" by (simp add: add.commute add.left_commute)
  then have "cryptoHash c [x, y, z] = cryptoHash c [z, x, y]" by (rule perm)
  with perm show ?thesis by blast
qed

theorem cryptoHash_order_independent_witness:
  "mset [Str ''one'', Str ''two'', Str ''three''] = mset [Str ''three'', Str ''one'', Str ''two'']
   \<and> cryptoHash example [Str ''one'', Str ''two'', Str ''three''] = ''onethreetwo''
   \<and> cryptoHash example [Str ''three'', Str ''one'', Str ''two''] = ''onethreetwo''"
proof -
  have m: "mset [Str ''one'', Str ''two'', Str ''three'']
             = mset [Str ''three'', Str ''one'', Str ''two'']"
    by (simp add: add.commute add.left_commute)
  have v: "cryptoHash example [Str ''one'', Str ''two'', Str ''three''] = ''onethreetwo''"
    by code_simp
  have "cryptoHash example [Str ''one'', Str ''two'', Str ''three'']
          = cryptoHash example [Str ''three'', Str ''one'', Str ''two'']"
    using cryptoHash_order_independent
      [of "[Str ''one'', Str ''two'', Str ''three'']"
          "[Str ''three'', Str ''one'', Str ''two'']" example] m
    by blast
  with m v show ?thesis by simp
qed

section \<open>What the loops of validTransactionData compute\<close>

lemma firstOutputValue_Some:
  "firstOutputValue m = Some v \<longleftrightarrow> (\<exists>a more. m = (a, v) # more)"
  by (cases m) (auto simp: firstOutputValue_def)

text \<open>The inner loop from any intermediate state: the count is only looked at when a
  reward transaction is met, and the set only holds non-reward transactions.\<close>

lemma transactionLoop_iff:
  "transactionLoop c h lc ts seen n \<longleftrightarrow>
     (filter (\<lambda>t. address (input (h t)) = REWARD_INPUT_address c) ts = []
      \<or> n + length (filter (\<lambda>t. address (input (h t)) = REWARD_INPUT_address c) ts) \<le> 1)
   \<and> (\<forall>t \<in> set ts. address (input (h t)) = REWARD_INPUT_address c \<longrightarrow>
         firstOutputValue (outputMap (h t)) = Some (MINING_REWARD c))
   \<and> (\<forall>t \<in> set ts. address (input (h t)) \<noteq> REWARD_INPUT_address c \<longrightarrow>
         validTransaction c (h t)
         \<and> amount (input (h t)) = calculateBalance c h lc (address (input (h t))))
   \<and> distinct (filter (\<lambda>t. address (input (h t)) \<noteq> REWARD_INPUT_address c) ts)
   \<and> set (filter (\<lambda>t. address (input (h t)) \<noteq> REWARD_INPUT_address c) ts) \<inter> set seen = {}"
proof (induction ts arbitrary: seen n)
  case Nil
  show ?case by simp
next
  case (Cons t ts)
  show ?case
  proof (cases "address (input (h t)) = REWARD_INPUT_address c")
    case True
    then show ?thesis using Cons.IH [of seen "n + 1"] by auto
  next
    case False
    then show ?thesis using Cons.IH [of "t # seen" n] by auto
  qed
qed

lemma filter_length_le_1:
  "(filter P xs = [] \<or> length (filter P xs) \<le> Suc 0) \<longleftrightarrow> length (filter P xs) \<le> 1"
  by (cases "filter P xs") auto

lemma transactionLoop_start:
  "transactionLoop c h lc ts [] 0 \<longleftrightarrow>
     length (filter (\<lambda>t. address (input (h t)) = REWARD_INPUT_address c) ts) \<le> 1
   \<and> (\<forall>t \<in> set ts.
         if address (input (h t)) = REWARD_INPUT_address c
         then \<exists>a more. outputMap (h t) = (a, MINING_REWARD c) # more
         else validTransaction c (h t)
              \<and> amount (input (h t)) = calculateBalance c h lc (address (input (h t))))
   \<and> distinct (filter (\<lambda>t. address (input (h t)) \<noteq> REWARD_INPUT_address c) ts)"
  unfolding transactionLoop_iff firstOutputValue_Some
  using filter_length_le_1 [of "\<lambda>t. address (input (h t)) = REWARD_INPUT_address c" ts]
  by auto

lemma blockLoop_iff:
  "blockLoop c h lc bs \<longleftrightarrow> (\<forall>b \<in> set bs. transactionLoop c h lc (data b) [] 0)"
  by (induction bs) auto

lemma set_drop_1: "set (drop 1 xs) = {xs ! i | i. 0 < i \<and> i < length xs}"
proof (cases xs)
  case Nil
  then show ?thesis by simp
next
  case (Cons x ys)
  have "set ys = {ys ! j | j. j < length ys}" by (simp add: set_conv_nth)
  also have "\<dots> = {(x # ys) ! i | i. 0 < i \<and> i < length (x # ys)}"
  proof (intro set_eqI iffI)
    fix b assume "b \<in> {ys ! j | j. j < length ys}"
    then obtain j where "b = ys ! j" "j < length ys" by blast
    then have "b = (x # ys) ! Suc j \<and> 0 < Suc j \<and> Suc j < length (x # ys)" by simp
    then show "b \<in> {(x # ys) ! i | i. 0 < i \<and> i < length (x # ys)}" by blast
  next
    fix b assume "b \<in> {(x # ys) ! i | i. 0 < i \<and> i < length (x # ys)}"
    then obtain i where i: "b = (x # ys) ! i" "0 < i" "i < length (x # ys)" by blast
    then obtain j where "i = Suc j" by (cases i) auto
    with i have "b = ys ! j \<and> j < length ys" by simp
    then show "b \<in> {ys ! j | j. j < length ys}" by blast
  qed
  finally show ?thesis using Cons by simp
qed

text \<open>The function accepts a chain exactly when the inner loop runs to its end on every
  block after the first.\<close>

lemma validTransactionData_iff:
  "validTransactionData c h lc ch \<longleftrightarrow>
     (\<forall>i. 0 < i \<and> i < length ch \<longrightarrow> transactionLoop c h lc (data (ch ! i)) [] 0)"
  unfolding validTransactionData_def blockLoop_iff set_drop_1 by blast

section \<open>Reward transactions\<close>

text \<open>
  Claim C10. The function accepts a chain exactly when every block after the first has at
  most one reward transaction, every reward transaction in it has \<^verbatim>\<open>MINING_REWARD\<close> as the
  first value of its \<^verbatim>\<open>outputMap\<close> (whatever entries follow), every other transaction
  passes \<^verbatim>\<open>validTransaction\<close> and claims the balance computed over the local chain, and
  no non-reward object occurs twice. So a reward transaction is checked through the first
  value of its \<^verbatim>\<open>outputMap\<close> only, and neither \<^verbatim>\<open>validTransaction\<close> (signature, output
  sum) nor the balance check is applied to it.
\<close>

theorem reward_checked_by_first_value_only:
  "validTransactionData c h this_chain chain' \<longleftrightarrow>
     (\<forall>i. 0 < i \<and> i < length chain' \<longrightarrow>
        length (filter (\<lambda>t. address (input (h t)) = REWARD_INPUT_address c)
                  (data (chain' ! i))) \<le> 1
      \<and> (\<forall>t \<in> set (data (chain' ! i)).
            if address (input (h t)) = REWARD_INPUT_address c
            then \<exists>a more. outputMap (h t) = (a, MINING_REWARD c) # more
            else validTransaction c (h t)
                 \<and> amount (input (h t))
                     = calculateBalance c h this_chain (address (input (h t))))
      \<and> distinct (filter (\<lambda>t. address (input (h t)) \<noteq> REWARD_INPUT_address c)
                    (data (chain' ! i))))"
  unfolding validTransactionData_iff transactionLoop_start ..

theorem reward_checked_by_first_value_only_witness:
  "\<not> validTransaction example (example_heap 1)
   \<and> outputMap (example_heap 1) = [(''miner'', 50), (''crony'', 1000000)]
   \<and> validTransactionData example example_heap [example_genesis]
        [example_genesis, example_block [1]]"
proof -
  have a: "\<not> validTransaction example (example_heap 1)" by code_simp
  have b: "outputMap (example_heap 1) = [(''miner'', 50), (''crony'', 1000000)]" by code_simp
  have c: "validTransactionData example example_heap [example_genesis]
        [example_genesis, example_block [1]]"
    unfolding reward_checked_by_first_value_only
  proof (intro allI impI)
    fix i :: nat
    assume "0 < i \<and> i < length [example_genesis, example_block [1]]"
    then have i: "i = 1" by simp
    show "length (filter (\<lambda>t. address (input (example_heap t)) = REWARD_INPUT_address example)
                  (data ([example_genesis, example_block [1]] ! i))) \<le> 1
      \<and> (\<forall>t \<in> set (data ([example_genesis, example_block [1]] ! i)).
            if address (input (example_heap t)) = REWARD_INPUT_address example
            then \<exists>a more. outputMap (example_heap t) = (a, MINING_REWARD example) # more
            else validTransaction example (example_heap t)
                 \<and> amount (input (example_heap t))
                     = calculateBalance example example_heap [example_genesis]
                         (address (input (example_heap t))))
      \<and> distinct (filter (\<lambda>t. address (input (example_heap t)) \<noteq> REWARD_INPUT_address example)
                    (data ([example_genesis, example_block [1]] ! i)))"
      unfolding i by (simp add: example_block_def example_heap_def rewardTx_def example_def)
  qed
  show ?thesis using a b c by simp
qed

section \<open>Checks on the transactions of a candidate chain\<close>

text \<open>
  Claim C5. For a non-reward transaction in a block after the first of the candidate chain,
  the claimed \<^verbatim>\<open>input.amount\<close> is compared with the balance of \<^verbatim>\<open>input.address\<close> computed
  over the node's own chain \<^verbatim>\<open>this.chain\<close>, not over the candidate; when the two differ
  the function returns false for the whole candidate.
\<close>

theorem input_amount_checked_against_local_chain:
  assumes "0 < i" and "i < length chain'"
    and "t \<in> set (data (chain' ! i))"
    and "address (input (h t)) \<noteq> REWARD_INPUT_address c"
    and "amount (input (h t)) \<noteq> calculateBalance c h this_chain (address (input (h t)))"
  shows "validTransactionData c h this_chain chain' = False"
proof -
  have "\<not> transactionLoop c h this_chain (data (chain' ! i)) [] 0"
    using assms(3-5) unfolding transactionLoop_start by auto
  with assms(1,2) show ?thesis unfolding validTransactionData_iff by blast
qed

text \<open>On the instance: the spender's claimed 50 is her balance over the candidate chain
  but not over the local chain, and the candidate is refused.\<close>

theorem input_amount_checked_against_local_chain_witness:
  "(0::nat) < 2
   \<and> 2 < length [example_genesis, example_block [3], example_block [4]]
   \<and> 4 \<in> set (data ([example_genesis, example_block [3], example_block [4]] ! 2))
   \<and> address (input (example_heap 4)) \<noteq> REWARD_INPUT_address example
   \<and> amount (input (example_heap 4))
       \<noteq> calculateBalance example example_heap [example_genesis]
            (address (input (example_heap 4)))
   \<and> amount (input (example_heap 4))
       = calculateBalance example example_heap
            [example_genesis, example_block [3], example_block [4]]
            (address (input (example_heap 4)))
   \<and> validTransactionData example example_heap [example_genesis]
        [example_genesis, example_block [3], example_block [4]] = False"
proof -
  have h1: "(0::nat) < 2" by simp
  have h2: "2 < length [example_genesis, example_block [3], example_block [4]]" by simp
  have h3: "4 \<in> set (data ([example_genesis, example_block [3], example_block [4]] ! 2))"
    by (simp add: example_block_def)
  have h4: "address (input (example_heap 4)) \<noteq> REWARD_INPUT_address example"
    by code_simp
  have h5: "amount (input (example_heap 4))
       \<noteq> calculateBalance example example_heap [example_genesis]
            (address (input (example_heap 4)))"
    by code_simp
  have h6: "amount (input (example_heap 4))
       = calculateBalance example example_heap
            [example_genesis, example_block [3], example_block [4]]
            (address (input (example_heap 4)))"
    by code_simp
  note r = input_amount_checked_against_local_chain [OF h1 h2 h3 h4 h5]
  show ?thesis using h1 h2 h3 h4 h5 h6 r by blast
qed

text \<open>
  Claim C6. If a block after the first of the candidate chain holds more than one reward
  transaction (input address equal to the reserved reward address), the function returns
  false for the whole chain, whatever the other transactions are.
\<close>

theorem more_than_one_reward_rejected:
  assumes "0 < i" and "i < length chain'"
    and "1 < length (filter (\<lambda>t. address (input (h t)) = REWARD_INPUT_address c)
                       (data (chain' ! i)))"
  shows "validTransactionData c h this_chain chain' = False"
proof -
  have "\<not> transactionLoop c h this_chain (data (chain' ! i)) [] 0"
    using assms(3) unfolding transactionLoop_start by auto
  with assms(1,2) show ?thesis unfolding validTransactionData_iff by blast
qed

theorem more_than_one_reward_rejected_witness:
  "(0::nat) < 1
   \<and> 1 < length [example_genesis, example_block [0, 6]]
   \<and> 1 < length (filter (\<lambda>t. address (input (example_heap t)) = REWARD_INPUT_address example)
                   (data ([example_genesis, example_block [0, 6]] ! 1)))
   \<and> validTransactionData example example_heap [example_genesis]
        [example_genesis, example_block [0, 6]] = False"
proof -
  have h1: "(0::nat) < 1" by simp
  have h2: "1 < length [example_genesis, example_block [0, 6]]" by simp
  have h3: "1 < length (filter (\<lambda>t. address (input (example_heap t)) = REWARD_INPUT_address example)
                   (data ([example_genesis, example_block [0, 6]] ! 1)))"
    by (simp add: example_block_def example_heap_def rewardTx_def example_def)
  note r = more_than_one_reward_rejected [OF h1 h2 h3]
  show ?thesis using h1 h2 h3 r by blast
qed

text \<open>
  Claim C7. The function validates every block of the candidate chain except the genesis
  block at index 0. If one of the validated blocks contains a reward transaction whose sole
  \<^verbatim>\<open>outputMap\<close> value differs from \<^verbatim>\<open>MINING_REWARD\<close>, the function returns false for the
  whole chain.
\<close>

theorem invalid_reward_amount_rejected:
  assumes "0 < i" and "i < length chain'"
    and "t \<in> set (data (chain' ! i))"
    and "address (input (h t)) = REWARD_INPUT_address c"
    and "outputMap (h t) = [(a, v)]"
    and "v \<noteq> MINING_REWARD c"
  shows "validTransactionData c h this_chain chain' = False"
proof -
  have "\<not> (\<exists>b more. outputMap (h t) = (b, MINING_REWARD c) # more)"
    using assms(5,6) by auto
  then have "\<not> transactionLoop c h this_chain (data (chain' ! i)) [] 0"
    using assms(3,4) unfolding transactionLoop_start by auto
  with assms(1,2) show ?thesis unfolding validTransactionData_iff by blast
qed

theorem invalid_reward_amount_rejected_witness:
  "(0::nat) < 1
   \<and> 1 < length [example_genesis, example_block [2]]
   \<and> 2 \<in> set (data ([example_genesis, example_block [2]] ! 1))
   \<and> address (input (example_heap 2)) = REWARD_INPUT_address example
   \<and> outputMap (example_heap 2) = [(''miner'', 49)]
   \<and> 49 \<noteq> MINING_REWARD example
   \<and> validTransactionData example example_heap [example_genesis]
        [example_genesis, example_block [2]] = False"
proof -
  have h1: "(0::nat) < 1" by simp
  have h2: "1 < length [example_genesis, example_block [2]]" by simp
  have h3: "2 \<in> set (data ([example_genesis, example_block [2]] ! 1))"
    by (simp add: example_block_def)
  have h4: "address (input (example_heap 2)) = REWARD_INPUT_address example" by code_simp
  have h5: "outputMap (example_heap 2) = [(''miner'', 49)]" by code_simp
  have h6: "49 \<noteq> MINING_REWARD example" by code_simp
  note r = invalid_reward_amount_rejected
    [where h = example_heap and t = 2 and c = example and this_chain = "[example_genesis]",
     OF h1 h2 h3 h4 h5 h6]
  show ?thesis using h1 h2 h3 h4 h5 h6 r by blast
qed

section \<open>Duplicate transactions\<close>

lemma distinct_by_parts:
  "distinct (filter P xs) \<Longrightarrow> distinct (filter (\<lambda>x. \<not> P x) xs) \<Longrightarrow> distinct xs"
  by (induction xs) (auto split: if_splits)

lemma short_list_distinct: "length xs \<le> 1 \<Longrightarrow> distinct xs"
  by (cases xs) auto

lemma transactionLoop_distinct:
  assumes "transactionLoop c h lc ts [] 0"
  shows "distinct ts"
proof -
  have "distinct (filter (\<lambda>t. address (input (h t)) = REWARD_INPUT_address c) ts)"
    using assms unfolding transactionLoop_start by (blast intro: short_list_distinct)
  moreover have "distinct (filter (\<lambda>t. \<not> address (input (h t)) = REWARD_INPUT_address c) ts)"
    using assms unfolding transactionLoop_start by blast
  ultimately show ?thesis by (rule distinct_by_parts)
qed

text \<open>
  Claim C8. The function validates every block of the candidate chain except the genesis
  block at index 0. If the same transaction object occurs more than once in one of the
  validated blocks, the function returns false for the whole chain. The check compares
  references only: when the entries of every validated block are pairwise distinct objects,
  equal in content or not, the outcome is decided by the other checks alone.
\<close>

theorem duplicate_instance_rejected:
  "(0 < i \<and> i < length chain' \<and> \<not> distinct (data (chain' ! i))
      \<longrightarrow> validTransactionData c h this_chain chain' = False)
   \<and> ((\<forall>j. 0 < j \<and> j < length chain' \<longrightarrow> distinct (data (chain' ! j))) \<longrightarrow>
        (validTransactionData c h this_chain chain' \<longleftrightarrow>
           (\<forall>j. 0 < j \<and> j < length chain' \<longrightarrow>
              length (filter (\<lambda>t. address (input (h t)) = REWARD_INPUT_address c)
                        (data (chain' ! j))) \<le> 1
            \<and> (\<forall>t \<in> set (data (chain' ! j)).
                  if address (input (h t)) = REWARD_INPUT_address c
                  then \<exists>a more. outputMap (h t) = (a, MINING_REWARD c) # more
                  else validTransaction c (h t)
                       \<and> amount (input (h t))
                           = calculateBalance c h this_chain (address (input (h t)))))))"
proof (intro conjI impI)
  assume "0 < i \<and> i < length chain' \<and> \<not> distinct (data (chain' ! i))"
  then have i: "0 < i \<and> i < length chain'"
    and "\<not> transactionLoop c h this_chain (data (chain' ! i)) [] 0"
    using transactionLoop_distinct by blast+
  then show "validTransactionData c h this_chain chain' = False"
    unfolding validTransactionData_iff by blast
next
  assume d: "\<forall>j. 0 < j \<and> j < length chain' \<longrightarrow> distinct (data (chain' ! j))"
  have "distinct (filter (\<lambda>t. address (input (h t)) \<noteq> REWARD_INPUT_address c)
                    (data (chain' ! j)))" if "0 < j \<and> j < length chain'" for j
    using d that by (simp add: distinct_filter)
  then show "validTransactionData c h this_chain chain' \<longleftrightarrow>
           (\<forall>j. 0 < j \<and> j < length chain' \<longrightarrow>
              length (filter (\<lambda>t. address (input (h t)) = REWARD_INPUT_address c)
                        (data (chain' ! j))) \<le> 1
            \<and> (\<forall>t \<in> set (data (chain' ! j)).
                  if address (input (h t)) = REWARD_INPUT_address c
                  then \<exists>a more. outputMap (h t) = (a, MINING_REWARD c) # more
                  else validTransaction c (h t)
                       \<and> amount (input (h t))
                           = calculateBalance c h this_chain (address (input (h t)))))"
    unfolding validTransactionData_iff transactionLoop_start by blast
qed

text \<open>On the instance, over a local chain in which the spender holds 50: the block that
  lists object 4 twice is refused; the block that lists the distinct objects 4 and 5 of
  equal content is accepted.\<close>

theorem duplicate_instance_rejected_witness:
  "(0::nat) < 1
   \<and> 1 < length [example_genesis, example_block [4, 4]]
   \<and> \<not> distinct (data ([example_genesis, example_block [4, 4]] ! 1))
   \<and> validTransactionData example example_heap [example_genesis, example_block [3]]
        [example_genesis, example_block [4, 4]] = False
   \<and> (4::nat) \<noteq> 5 \<and> example_heap 4 = example_heap 5
   \<and> distinct (data ([example_genesis, example_block [4, 5]] ! 1))
   \<and> validTransactionData example example_heap [example_genesis, example_block [3]]
        [example_genesis, example_block [4, 5]]"
proof -
  have h1: "(0::nat) < 1 \<and> 1 < length [example_genesis, example_block [4, 4]]
            \<and> \<not> distinct (data ([example_genesis, example_block [4, 4]] ! 1))"
    by (simp add: example_block_def)
  have r1: "validTransactionData example example_heap [example_genesis, example_block [3]]
        [example_genesis, example_block [4, 4]] = False"
    using duplicate_instance_rejected
      [of 1 "[example_genesis, example_block [4, 4]]" example example_heap
          "[example_genesis, example_block [3]]"] h1
    by blast
  have e: "(4::nat) \<noteq> 5 \<and> example_heap 4 = example_heap 5"
    by (simp add: example_heap_def)
  have one: "j = 1" if "0 < j \<and> j < length [example_genesis, example_block [4, 5]]"
    for j :: nat
    using that by simp
  have h2: "\<forall>j. 0 < j \<and> j < length [example_genesis, example_block [4, 5]]
              \<longrightarrow> distinct (data ([example_genesis, example_block [4, 5]] ! j))"
    using one by (auto simp: example_block_def)
  have rhs: "\<forall>j. 0 < j \<and> j < length [example_genesis, example_block [4, 5]] \<longrightarrow>
      length (filter (\<lambda>t. address (input (example_heap t)) = REWARD_INPUT_address example)
                (data ([example_genesis, example_block [4, 5]] ! j))) \<le> 1
      \<and> (\<forall>t \<in> set (data ([example_genesis, example_block [4, 5]] ! j)).
            if address (input (example_heap t)) = REWARD_INPUT_address example
            then \<exists>a more. outputMap (example_heap t) = (a, MINING_REWARD example) # more
            else validTransaction example (example_heap t)
                 \<and> amount (input (example_heap t))
                     = calculateBalance example example_heap
                         [example_genesis, example_block [3]]
                         (address (input (example_heap t))))"
  proof (intro allI impI)
    fix j :: nat
    assume "0 < j \<and> j < length [example_genesis, example_block [4, 5]]"
    then have j: "j = 1" by (rule one)
    show "length (filter (\<lambda>t. address (input (example_heap t)) = REWARD_INPUT_address example)
                (data ([example_genesis, example_block [4, 5]] ! j))) \<le> 1
      \<and> (\<forall>t \<in> set (data ([example_genesis, example_block [4, 5]] ! j)).
            if address (input (example_heap t)) = REWARD_INPUT_address example
            then \<exists>a more. outputMap (example_heap t) = (a, MINING_REWARD example) # more
            else validTransaction example (example_heap t)
                 \<and> amount (input (example_heap t))
                     = calculateBalance example example_heap
                         [example_genesis, example_block [3]]
                         (address (input (example_heap t))))"
      unfolding j
      by (simp add: example_block_def example_heap_def rewardTx_def aliceTx_def example_def
          example_balance_def example_genesis_def)
  qed
  have r2: "validTransactionData example example_heap [example_genesis, example_block [3]]
        [example_genesis, example_block [4, 5]]"
    using duplicate_instance_rejected
      [of 1 "[example_genesis, example_block [4, 5]]" example example_heap
          "[example_genesis, example_block [3]]"] h2 rhs
    by blast
  have d: "distinct (data ([example_genesis, example_block [4, 5]] ! 1))"
    by (simp add: example_block_def)
  show ?thesis using h1 r1 e d r2 by blast
qed

section \<open>Structural validity of a chain\<close>

lemma linkLoop_iff:
  "linkLoop c h prev bs \<longleftrightarrow>
     (\<forall>i < length bs.
        lastHash (bs ! i) = hash ((prev # bs) ! i)
      \<and> hash (bs ! i) = cryptoHash c [Num (timestamp (bs ! i)), Str (lastHash (bs ! i)),
            Payload (map h (data (bs ! i))), Num (nonce (bs ! i)), Num (difficulty (bs ! i))]
      \<and> \<bar>difficulty (bs ! i) - difficulty ((prev # bs) ! i)\<bar> \<le> 1)"
proof (induction bs arbitrary: prev)
  case Nil
  show ?case by simp
next
  case (Cons b bs)
  have split: "(\<forall>i < length (b # bs). P i) \<longleftrightarrow> P 0 \<and> (\<forall>i < length bs. P (Suc i))"
    for P :: "nat \<Rightarrow> bool"
    by (auto simp: less_Suc_eq_0_disj)
  show ?case
    unfolding split using Cons.IH [of b] by (auto simp: abs_minus_commute)
qed

lemma shift_index:
  "(\<forall>i. 0 < i \<and> i < Suc n \<longrightarrow> P i (i - 1)) \<longleftrightarrow> (\<forall>j < n. P (Suc j) j)"
proof
  assume a: "\<forall>i. 0 < i \<and> i < Suc n \<longrightarrow> P i (i - 1)"
  show "\<forall>j < n. P (Suc j) j"
  proof (intro allI impI)
    fix j assume "j < n"
    then have "0 < Suc j \<and> Suc j < Suc n" by simp
    with a have "P (Suc j) (Suc j - 1)" by blast
    then show "P (Suc j) j" by simp
  qed
next
  assume b: "\<forall>j < n. P (Suc j) j"
  show "\<forall>i. 0 < i \<and> i < Suc n \<longrightarrow> P i (i - 1)"
  proof (intro allI impI)
    fix i assume i: "0 < i \<and> i < Suc n"
    then obtain j where j: "i = Suc j" by (cases i) auto
    with i b have "P (Suc j) j" by simp
    with j show "P i (i - 1)" by simp
  qed
qed

lemma isValidChain_Cons:
  "isValidChain c h (b0 # rest) \<longleftrightarrow>
     blockJSON h b0 = blockJSON h (genesis c)
   \<and> (\<forall>i. 0 < i \<and> i < length (b0 # rest) \<longrightarrow>
        lastHash ((b0 # rest) ! i) = hash ((b0 # rest) ! (i - 1))
      \<and> hash ((b0 # rest) ! i) = cryptoHash c [Num (timestamp ((b0 # rest) ! i)),
            Str (lastHash ((b0 # rest) ! i)), Payload (map h (data ((b0 # rest) ! i))),
            Num (nonce ((b0 # rest) ! i)), Num (difficulty ((b0 # rest) ! i))]
      \<and> \<bar>difficulty ((b0 # rest) ! i) - difficulty ((b0 # rest) ! (i - 1))\<bar> \<le> 1)"
proof -
  have "(\<forall>i. 0 < i \<and> i < length (b0 # rest) \<longrightarrow>
        lastHash ((b0 # rest) ! i) = hash ((b0 # rest) ! (i - 1))
      \<and> hash ((b0 # rest) ! i) = cryptoHash c [Num (timestamp ((b0 # rest) ! i)),
            Str (lastHash ((b0 # rest) ! i)), Payload (map h (data ((b0 # rest) ! i))),
            Num (nonce ((b0 # rest) ! i)), Num (difficulty ((b0 # rest) ! i))]
      \<and> \<bar>difficulty ((b0 # rest) ! i) - difficulty ((b0 # rest) ! (i - 1))\<bar> \<le> 1)
    \<longleftrightarrow> linkLoop c h b0 rest"
    unfolding linkLoop_iff
    using shift_index [of "length rest" "\<lambda>i k.
        lastHash ((b0 # rest) ! i) = hash ((b0 # rest) ! k)
      \<and> hash ((b0 # rest) ! i) = cryptoHash c [Num (timestamp ((b0 # rest) ! i)),
            Str (lastHash ((b0 # rest) ! i)), Payload (map h (data ((b0 # rest) ! i))),
            Num (nonce ((b0 # rest) ! i)), Num (difficulty ((b0 # rest) ! i))]
      \<and> \<bar>difficulty ((b0 # rest) ! i) - difficulty ((b0 # rest) ! k)\<bar> \<le> 1"]
    by simp
  then show ?thesis by (simp add: isValidChain_def)
qed

text \<open>
  Claim C2. \<^verbatim>\<open>isValidChain\<close> returns true exactly when the chain has a first block that
  serialises as the genesis block and, at every index \<open>i > 0\<close>, the block's \<^verbatim>\<open>lastHash\<close>
  is the predecessor's \<^verbatim>\<open>hash\<close>, its \<^verbatim>\<open>hash\<close> is the digest re-derived from its timestamp,
  lastHash, data, nonce and difficulty, and its difficulty differs from the predecessor's
  by at most 1. The chain made of the genesis block alone is valid, and a chain whose
  first block differs from the genesis block in any field is not.
\<close>

theorem isValidChain_iff:
  "(isValidChain c h chain' \<longleftrightarrow>
      chain' \<noteq> []
    \<and> blockJSON h (chain' ! 0) = blockJSON h (genesis c)
    \<and> (\<forall>i. 0 < i \<and> i < length chain' \<longrightarrow>
         lastHash (chain' ! i) = hash (chain' ! (i - 1))
       \<and> hash (chain' ! i) = cryptoHash c [Num (timestamp (chain' ! i)),
             Str (lastHash (chain' ! i)), Payload (map h (data (chain' ! i))),
             Num (nonce (chain' ! i)), Num (difficulty (chain' ! i))]
       \<and> \<bar>difficulty (chain' ! i) - difficulty (chain' ! (i - 1))\<bar> \<le> 1))
   \<and> isValidChain c h [genesis c]
   \<and> (blockJSON h b \<noteq> blockJSON h (genesis c) \<longrightarrow> \<not> isValidChain c h (b # rest))"
proof (intro conjI)
  show "isValidChain c h chain' \<longleftrightarrow>
      chain' \<noteq> []
    \<and> blockJSON h (chain' ! 0) = blockJSON h (genesis c)
    \<and> (\<forall>i. 0 < i \<and> i < length chain' \<longrightarrow>
         lastHash (chain' ! i) = hash (chain' ! (i - 1))
       \<and> hash (chain' ! i) = cryptoHash c [Num (timestamp (chain' ! i)),
             Str (lastHash (chain' ! i)), Payload (map h (data (chain' ! i))),
             Num (nonce (chain' ! i)), Num (difficulty (chain' ! i))]
       \<and> \<bar>difficulty (chain' ! i) - difficulty (chain' ! (i - 1))\<bar> \<le> 1)"
  proof (cases chain')
    case Nil
    then show ?thesis by (simp add: isValidChain_def)
  next
    case (Cons b0 bs)
    show ?thesis unfolding Cons isValidChain_Cons by simp
  qed
  show "isValidChain c h [genesis c]" by (simp add: isValidChain_def)
  show "blockJSON h b \<noteq> blockJSON h (genesis c) \<longrightarrow> \<not> isValidChain c h (b # rest)"
    by (simp add: isValidChain_def)
qed

text \<open>On the instance: a mined block on top of the genesis block makes a valid chain;
  the same chain with the nonce of its first block changed is invalid.\<close>

theorem isValidChain_iff_witness:
  "isValidChain example example_heap [example_genesis, example_block [0]]
   \<and> isValidChain example example_heap [genesis example]
   \<and> blockJSON example_heap (example_genesis\<lparr>nonce := 7\<rparr>)
       \<noteq> blockJSON example_heap (genesis example)
   \<and> \<not> isValidChain example example_heap
         (example_genesis\<lparr>nonce := 7\<rparr> # [example_block [0]])"
proof -
  note t = isValidChain_iff [of example example_heap "[example_genesis, example_block [0]]"
      "example_genesis\<lparr>nonce := 7\<rparr>" "[example_block [0]]"]
  have one: "i = 1" if "0 < i \<and> i < length [example_genesis, example_block [0]]"
    for i :: nat
    using that by simp
  have g: "blockJSON example_heap ([example_genesis, example_block [0]] ! 0)
             = blockJSON example_heap (genesis example)"
    by code_simp
  have l: "lastHash ([example_genesis, example_block [0]] ! 1)
             = hash ([example_genesis, example_block [0]] ! (1 - 1))
       \<and> hash ([example_genesis, example_block [0]] ! 1)
           = cryptoHash example [Num (timestamp ([example_genesis, example_block [0]] ! 1)),
             Str (lastHash ([example_genesis, example_block [0]] ! 1)),
             Payload (map example_heap (data ([example_genesis, example_block [0]] ! 1))),
             Num (nonce ([example_genesis, example_block [0]] ! 1)),
             Num (difficulty ([example_genesis, example_block [0]] ! 1))]
       \<and> \<bar>difficulty ([example_genesis, example_block [0]] ! 1)
            - difficulty ([example_genesis, example_block [0]] ! (1 - 1))\<bar> \<le> 1"
    by code_simp
  have v: "isValidChain example example_heap [example_genesis, example_block [0]]"
    using t g l one by blast
  have m: "blockJSON example_heap (example_genesis\<lparr>nonce := 7\<rparr>)
             \<noteq> blockJSON example_heap (genesis example)"
    by code_simp
  show ?thesis using t v m by blast
qed

section \<open>Chain replacement\<close>

text \<open>
  Claim C1. \<^verbatim>\<open>replaceChain\<close> replaces the local chain by the candidate exactly when the
  candidate is strictly longer than the local chain, \<^verbatim>\<open>isValidChain\<close> holds of it and, when
  \<^verbatim>\<open>validateTransactions\<close> is set, \<^verbatim>\<open>validTransactionData\<close> holds of it; in exactly that
  case the success callback (when one is passed) runs, once; in every other case the call
  changes nothing.
\<close>

theorem replaceChain_longest_valid_chain:
  "replaceChain c h self chain' validateTransactions onSuccess =
     (if length (chain self) < length chain'
         \<and> isValidChain c h chain'
         \<and> (truthy validateTransactions \<longrightarrow> validTransactionData c h (chain self) chain')
      then \<lparr>chain = chain',
            transactionPool = (case onSuccess of
                                 None \<Rightarrow> transactionPool self
                               | Some f \<Rightarrow> f (transactionPool self))\<rparr>
      else self)"
  by (cases onSuccess) (auto simp: replaceChain_def)

text \<open>On the instance, with a callback that counts its calls: a longer valid chain is
  taken and the callback runs once; a longer chain with a wrong reward is refused when
  transactions are validated and taken when they are not.\<close>

theorem replaceChain_longest_valid_chain_witness:
  "replaceChain example example_heap \<lparr>chain = [example_genesis], transactionPool = 0::nat\<rparr>
     [example_genesis, example_block [0]] (Boolean True) (Some Suc)
     = \<lparr>chain = [example_genesis, example_block [0]], transactionPool = 1\<rparr>
   \<and> replaceChain example example_heap \<lparr>chain = [example_genesis], transactionPool = 0::nat\<rparr>
       [example_genesis, example_block [2]] (Boolean True) (Some Suc)
       = \<lparr>chain = [example_genesis], transactionPool = 0\<rparr>
   \<and> replaceChain example example_heap \<lparr>chain = [example_genesis], transactionPool = 0::nat\<rparr>
       [example_genesis, example_block [2]] Undefined (Some Suc)
       = \<lparr>chain = [example_genesis, example_block [2]], transactionPool = 1\<rparr>"
proof -
  have v0: "isValidChain example example_heap [example_genesis, example_block [0]]"
    by code_simp
  have v2: "isValidChain example example_heap [example_genesis, example_block [2]]"
    by code_simp
  have t0: "validTransactionData example example_heap [example_genesis]
              [example_genesis, example_block [0]]"
    by code_simp
  have t2: "\<not> validTransactionData example example_heap [example_genesis]
              [example_genesis, example_block [2]]"
    by code_simp
  have a: "replaceChain example example_heap
             \<lparr>chain = [example_genesis], transactionPool = 0::nat\<rparr>
             [example_genesis, example_block [0]] (Boolean True) (Some Suc)
           = \<lparr>chain = [example_genesis, example_block [0]], transactionPool = 1\<rparr>"
    unfolding replaceChain_longest_valid_chain using v0 t0 by simp
  have b: "replaceChain example example_heap
             \<lparr>chain = [example_genesis], transactionPool = 0::nat\<rparr>
             [example_genesis, example_block [2]] (Boolean True) (Some Suc)
           = \<lparr>chain = [example_genesis], transactionPool = 0\<rparr>"
    unfolding replaceChain_longest_valid_chain using v2 t2 by simp
  have c: "replaceChain example example_heap
             \<lparr>chain = [example_genesis], transactionPool = 0::nat\<rparr>
             [example_genesis, example_block [2]] Undefined (Some Suc)
           = \<lparr>chain = [example_genesis, example_block [2]], transactionPool = 1\<rparr>"
    unfolding replaceChain_longest_valid_chain using v2 by simp
  from a b c show ?thesis by blast
qed

text \<open>
  Claim C3. Whenever \<^verbatim>\<open>replaceChain\<close> rejects the candidate (not longer than the local
  chain, structurally invalid, or with invalid transaction data when these are validated),
  the node is left as it was; and in every case the resulting chain is the old chain or the
  whole candidate, never a part of it.
\<close>

theorem replaceChain_all_or_nothing:
  "(length chain' \<le> length (chain self)
      \<or> \<not> isValidChain c h chain'
      \<or> (truthy validateTransactions \<and> \<not> validTransactionData c h (chain self) chain')
    \<longrightarrow> replaceChain c h self chain' validateTransactions onSuccess = self)
   \<and> (chain (replaceChain c h self chain' validateTransactions onSuccess) = chain self
      \<or> chain (replaceChain c h self chain' validateTransactions onSuccess) = chain')"
  by (cases onSuccess) (auto simp: replaceChain_def)

text \<open>On the instance, one rejection of each kind.\<close>

theorem replaceChain_all_or_nothing_witness:
  "length [example_block [0]] \<le> length (chain \<lparr>chain = [example_genesis], transactionPool = 0::nat\<rparr>)
   \<and> replaceChain example example_heap \<lparr>chain = [example_genesis], transactionPool = 0::nat\<rparr>
       [example_block [0]] (Boolean True) (Some Suc)
       = \<lparr>chain = [example_genesis], transactionPool = 0\<rparr>
   \<and> \<not> isValidChain example example_heap
         [example_genesis, (example_block [0])\<lparr>hash := ''some-fake-hash''\<rparr>]
   \<and> replaceChain example example_heap \<lparr>chain = [example_genesis], transactionPool = 0::nat\<rparr>
       [example_genesis, (example_block [0])\<lparr>hash := ''some-fake-hash''\<rparr>] (Boolean True)
       (Some Suc)
       = \<lparr>chain = [example_genesis], transactionPool = 0\<rparr>
   \<and> truthy (Boolean True :: nat jsArg)
   \<and> \<not> validTransactionData example example_heap
         (chain \<lparr>chain = [example_genesis], transactionPool = 0::nat\<rparr>)
         [example_genesis, example_block [0, 6]]
   \<and> replaceChain example example_heap \<lparr>chain = [example_genesis], transactionPool = 0::nat\<rparr>
       [example_genesis, example_block [0, 6]] (Boolean True) (Some Suc)
       = \<lparr>chain = [example_genesis], transactionPool = 0\<rparr>"
proof -
  have h1: "length [example_block [0]]
              \<le> length (chain \<lparr>chain = [example_genesis], transactionPool = 0::nat\<rparr>)"
    by simp
  have h2: "\<not> isValidChain example example_heap
         [example_genesis, (example_block [0])\<lparr>hash := ''some-fake-hash''\<rparr>]"
    by code_simp
  have h3: "truthy (Boolean True :: nat jsArg)
     \<and> \<not> validTransactionData example example_heap
         (chain \<lparr>chain = [example_genesis], transactionPool = 0::nat\<rparr>)
         [example_genesis, example_block [0, 6]]"
    by code_simp
  have r1: "replaceChain example example_heap
       \<lparr>chain = [example_genesis], transactionPool = 0::nat\<rparr>
       [example_block [0]] (Boolean True) (Some Suc)
       = \<lparr>chain = [example_genesis], transactionPool = 0\<rparr>"
    using replaceChain_all_or_nothing
      [of "[example_block [0]]" "\<lparr>chain = [example_genesis], transactionPool = 0::nat\<rparr>"
          example example_heap "Boolean True" "Some Suc"] h1
    by blast
  have r2: "replaceChain example example_heap
       \<lparr>chain = [example_genesis], transactionPool = 0::nat\<rparr>
       [example_genesis, (example_block [0])\<lparr>hash := ''some-fake-hash''\<rparr>] (Boolean True)
       (Some Suc)
       = \<lparr>chain = [example_genesis], transactionPool = 0\<rparr>"
    using replaceChain_all_or_nothing
      [of "[example_genesis, (example_block [0])\<lparr>hash := ''some-fake-hash''\<rparr>]"
          "\<lparr>chain = [example_genesis], transactionPool = 0::nat\<rparr>"
          example example_heap "Boolean True" "Some Suc"] h2
    by blast
  have r3: "replaceChain example example_heap
       \<lparr>chain = [example_genesis], transactionPool = 0::nat\<rparr>
       [example_genesis, example_block [0, 6]] (Boolean True) (Some Suc)
       = \<lparr>chain = [example_genesis], transactionPool = 0\<rparr>"
    using replaceChain_all_or_nothing
      [of "[example_genesis, example_block [0, 6]]"
          "\<lparr>chain = [example_genesis], transactionPool = 0::nat\<rparr>"
          example example_heap "Boolean True" "Some Suc"] h3
    by blast
  from h1 h2 h3 r1 r2 r3 show ?thesis by blast
qed

section \<open>Chain updates from the transport\<close>

text \<open>The listener passes two arguments to \<^verbatim>\<open>replaceChain\<close>: its callback is bound to
  \<^verbatim>\<open>validateTransactions\<close> and \<^verbatim>\<open>onSuccess\<close> is \<^verbatim>\<open>undefined\<close>. A message on the
  \<^verbatim>\<open>BLOCKCHAIN\<close> channel therefore never changes the pool.\<close>

lemma listener_chain_update_keeps_pool:
  "transactionPool (listener c ops h self (OnBLOCKCHAIN parsedMessage)) = transactionPool self"
  by (simp add: listener_def replaceChain_def)

text \<open>
  Claim C4 (not met by the code). A chain update is meant to reach the core as
  \<^verbatim>\<open>replaceChain(parsedChain, true, callback)\<close>, the callback clearing the transactions of
  the accepted chain from the pool. On the instance, the node holds the genesis block and a
  pool with the identifiers \<open>r0\<close> and \<open>zz\<close>; the longer valid chain that arrives contains
  the transaction \<open>r0\<close>. The chain is replaced, the transactions are validated, and the
  pool still holds \<open>r0\<close>, which the clearing call would have removed.
\<close>

theorem listener_chain_update_skips_pool_clearing:
  "listener example example_pool example_heap
     \<lparr>chain = [example_genesis], transactionPool = [''r0'', ''zz'']\<rparr>
     (OnBLOCKCHAIN [example_genesis, example_block [0]])
     = \<lparr>chain = [example_genesis, example_block [0]], transactionPool = [''r0'', ''zz'']\<rparr>
   \<and> clearBlockchainTransactions example_pool example_heap
       [example_genesis, example_block [0]] [''r0'', ''zz''] = [''zz'']
   \<and> replaceChain example example_heap
       \<lparr>chain = [example_genesis], transactionPool = [''r0'', ''zz'']\<rparr>
       [example_genesis, example_block [0]] (Boolean True)
       (Some (clearBlockchainTransactions example_pool example_heap
                [example_genesis, example_block [0]]))
       = \<lparr>chain = [example_genesis, example_block [0]], transactionPool = [''zz'']\<rparr>"
proof -
  have v0: "isValidChain example example_heap [example_genesis, example_block [0]]"
    by code_simp
  have t0: "validTransactionData example example_heap [example_genesis]
              [example_genesis, example_block [0]]"
    by code_simp
  have cl: "clearBlockchainTransactions example_pool example_heap
       [example_genesis, example_block [0]] [''r0'', ''zz''] = [''zz'']"
    by code_simp
  have a: "listener example example_pool example_heap
     \<lparr>chain = [example_genesis], transactionPool = [''r0'', ''zz'']\<rparr>
     (OnBLOCKCHAIN [example_genesis, example_block [0]])
     = \<lparr>chain = [example_genesis, example_block [0]], transactionPool = [''r0'', ''zz'']\<rparr>"
    using v0 t0 by (simp add: listener_def replaceChain_def)
  have b: "replaceChain example example_heap
       \<lparr>chain = [example_genesis], transactionPool = [''r0'', ''zz'']\<rparr>
       [example_genesis, example_block [0]] (Boolean True)
       (Some (clearBlockchainTransactions example_pool example_heap
                [example_genesis, example_block [0]]))
       = \<lparr>chain = [example_genesis, example_block [0]], transactionPool = [''zz'']\<rparr>"
    using v0 t0 cl by (simp add: replaceChain_def)
  from a cl b show ?thesis by blast
qed

end
